theory Spec2Isabelle
  imports Main "HOL-Library.Char_ord" "HOL-Library.List_Lexorder"
begin

section \<open>JavaScript strings\<close>

text \<open>
  A JavaScript string is modelled as \<open>string\<close>, one character for one code unit below
  256. The functions of this section are the built-ins the program calls
  (\<open>startsWith\<close>, \<open>includes\<close>, \<open>split\<close>, \<open>trim\<close>, \<open>join\<close>, the regular
  expression classes), not code of the repository.
\<close>

definition isWhiteSpace :: "char \<Rightarrow> bool" where
  \<comment> \<open>\<open>\s\<close> and \<open>trim\<close>: TAB, LF, VT, FF, CR, space and the no-break space\<close>
  "isWhiteSpace c = (of_char c \<in> {9, 10, 11, 12, 13, 32, 160 :: nat})"

definition isLineTerminator :: "char \<Rightarrow> bool" where
  \<comment> \<open>what \<open>.\<close> does not match\<close>
  "isLineTerminator c = (of_char c \<in> {10, 13 :: nat})"

definition isDigit :: "char \<Rightarrow> bool" where
  "isDigit c = (48 \<le> (of_char c :: nat) \<and> (of_char c :: nat) \<le> 57)"

definition isLetter :: "char \<Rightarrow> bool" where
  \<comment> \<open>\<open>[a-zA-Z]\<close>\<close>
  "isLetter c = ((65 \<le> (of_char c :: nat) \<and> (of_char c :: nat) \<le> 90)
               \<or> (97 \<le> (of_char c :: nat) \<and> (of_char c :: nat) \<le> 122))"

definition isAlnum :: "char \<Rightarrow> bool" where
  \<comment> \<open>\<open>[a-zA-Z0-9]\<close>\<close>
  "isAlnum c = (isLetter c \<or> isDigit c)"

definition isQuote :: "char \<Rightarrow> bool" where
  \<comment> \<open>\<open>['"]\<close>\<close>
  "isQuote c = (of_char c \<in> {34, 39 :: nat})"

definition toLowerCase :: "char \<Rightarrow> char" where
  "toLowerCase c =
     (if 65 \<le> (of_char c :: nat) \<and> (of_char c :: nat) \<le> 90
      then char_of (of_char c + 32 :: nat) else c)"

definition startsWith :: "string \<Rightarrow> string \<Rightarrow> bool" where
  \<comment> \<open>\<open>s.startsWith(p)\<close>, the prefix first\<close>
  "startsWith p s = (take (length p) s = p)"

fun jsIncludes :: "string \<Rightarrow> string \<Rightarrow> bool" where
  \<comment> \<open>\<open>s.includes(sub)\<close>\<close>
  "jsIncludes [] sub = (sub = [])"
| "jsIncludes (c # cs) sub = (startsWith sub (c # cs) \<or> jsIncludes cs sub)"

definition jsTrim :: "string \<Rightarrow> string" where
  "jsTrim s = rev (dropWhile isWhiteSpace (rev (dropWhile isWhiteSpace s)))"

fun join :: "string \<Rightarrow> string list \<Rightarrow> string" where
  \<comment> \<open>\<open>xs.join(sep)\<close>, the separator first\<close>
  "join sep [] = []"
| "join sep [x] = x"
| "join sep (x # y # ys) = x @ sep @ join sep (y # ys)"

text \<open>
  \<open>s.split(sep)\<close> for a non-empty separator: \<open>acc\<close> is the piece being read,
  reversed. The program only splits on \<open>'diff --git'\<close> and on the newline.
\<close>

fun splitAux :: "string \<Rightarrow> string \<Rightarrow> string \<Rightarrow> string list" where
  "splitAux sep acc [] = [rev acc]"
| "splitAux sep acc (c # cs) =
     (if startsWith sep (c # cs)
      then rev acc # splitAux sep [] (drop (length sep - 1) cs)
      else splitAux sep (c # acc) cs)"

definition jsSplit :: "string \<Rightarrow> string \<Rightarrow> string list" where
  "jsSplit s sep = splitAux sep [] s"

text \<open>
  \<open>s.replace(re, ...)\<close> with a global regular expression whose matches are never
  empty: the matcher tells, at a position, the replacement text and the length of the
  match there; the scan goes left to right and resumes after each match. \<open>skip\<close>
  counts the characters of the current match still to pass over.
\<close>

fun replaceAllAux :: "(string \<Rightarrow> (string \<times> nat) option) \<Rightarrow> nat \<Rightarrow> string \<Rightarrow> string" where
  "replaceAllAux m skip [] = []"
| "replaceAllAux m (Suc skip) (c # cs) = replaceAllAux m skip cs"
| "replaceAllAux m 0 (c # cs) =
     (case m (c # cs) of
        Some (replacement, len) \<Rightarrow> replacement @ replaceAllAux m (len - 1) cs
      | None \<Rightarrow> c # replaceAllAux m 0 cs)"

definition replaceAll :: "(string \<Rightarrow> (string \<times> nat) option) \<Rightarrow> string \<Rightarrow> string" where
  "replaceAll m s = replaceAllAux m 0 s"

fun showNat :: "nat \<Rightarrow> string" where
  \<comment> \<open>a non-negative integer in a template literal\<close>
  "showNat n =
     (if n < 10 then [''0123456789'' ! n] else showNat (n div 10) @ [''0123456789'' ! (n mod 10)])"

definition newline :: string where
  "newline = [CHR 0x0A]"

section \<open>Errors (src/tools/errors/commit-errors.ts)\<close>

text \<open>
  A thrown value is an error object: its class, which \<open>instanceof\<close> tests, and its
  message. \<open>PlainError\<close> is the built-in \<open>Error\<close>, and stands for every class
  that the program does not test for.
\<close>

datatype error_class =
  PlainError | SyntaxError | LLMTimeoutError | InvalidResponseError | NoChangesError | GitError

datatype js_error = JsError (error_class: error_class) (error_message: string)

definition new_Error :: "string \<Rightarrow> js_error" where
  "new_Error msg = JsError PlainError msg"

definition new_LLMTimeoutError :: "nat \<Rightarrow> js_error" where
  "new_LLMTimeoutError timeoutMs =
     JsError LLMTimeoutError (''LLM request timed out after '' @ showNat timeoutMs @ ''ms'')"

definition new_InvalidResponseError :: "string \<Rightarrow> js_error" where
  "new_InvalidResponseError details' =
     JsError InvalidResponseError (''Invalid LLM response: '' @ details')"

definition new_NoChangesError :: js_error where
  "new_NoChangesError = JsError NoChangesError ''No changes staged for commit''"

definition new_GitError :: "string \<Rightarrow> string \<Rightarrow> js_error" where
  "new_GitError command err =
     JsError GitError (''Git command '' @ [CHR 0x27] @ command @ [CHR 0x27] @ '' failed: '' @ err)"

section \<open>Data model (src/tools/llm/types.ts)\<close>

text \<open>
  \<open>ChangeType\<close> is a TypeScript union of string literals, a plain string at run
  time. An optional property (\<open>scope?\<close>, \<open>details?\<close>) is an \<open>option\<close>, \<open>None\<close> for
  \<open>undefined\<close>.
\<close>

type_synonym ChangeType = string

record ChangeCategory =
  cc_type :: ChangeType
  cc_scope :: "string option"
  cc_description :: string

record CommitAnalysis =
  files :: "string list"
  summary :: string
  impactedAreas :: "string list"
  changeTypes :: "ChangeCategory list"
  breakingChanges :: bool

record LLMResponse =
  commitMessage :: string
  r_type :: ChangeType
  scope :: "string option"
  breaking :: bool
  details :: "string option"

section \<open>Diff parser (src/tools/git/diff-parser.ts)\<close>

record ParsedDiff =
  filePath :: string
  additions :: "string list"
  deletions :: "string list"
  changeType :: string

text \<open>
  A property of an options object is absent (\<open>None\<close>), present with the value
  \<open>undefined\<close> (\<open>Some None\<close>) or present with a value. Reading a property gives
  \<open>undefined\<close> in the first two cases.
\<close>

record DiffParseOptions =
  maxLinesPerFile :: "nat option option"
  includeContext :: "bool option option"
  excludePatterns :: "string list option option"

definition readProperty :: "'a option option \<Rightarrow> 'a option" where
  "readProperty p = (case p of None \<Rightarrow> None | Some v \<Rightarrow> v)"

definition DEFAULT_OPTIONS :: DiffParseOptions where
  "DEFAULT_OPTIONS = \<lparr>maxLinesPerFile = Some (Some 50), includeContext = Some (Some True),
     excludePatterns = Some (Some [''package-lock.json'', ''yarn.lock'', ''*.log''])\<rparr>"

definition no_options :: DiffParseOptions where
  \<comment> \<open>the default value \<open>{}\<close> of the parameter \<open>options\<close>\<close>
  "no_options = \<lparr>maxLinesPerFile = None, includeContext = None, excludePatterns = None\<rparr>"

definition spread :: "DiffParseOptions \<Rightarrow> DiffParseOptions \<Rightarrow> DiffParseOptions" where
  \<comment> \<open>\<open>{ ...a, ...b }\<close>: a property of \<open>b\<close> wins where \<open>b\<close> has it, also with the
      value \<open>undefined\<close>\<close>
  "spread a b =
     \<lparr>maxLinesPerFile = (case maxLinesPerFile b of Some v \<Rightarrow> Some v | None \<Rightarrow> maxLinesPerFile a),
      includeContext = (case includeContext b of Some v \<Rightarrow> Some v | None \<Rightarrow> includeContext a),
      excludePatterns = (case excludePatterns b of Some v \<Rightarrow> Some v | None \<Rightarrow> excludePatterns a)\<rparr>"

subsection \<open>sanitizeLine\<close>

text \<open>
  The match of \<open>/(['"])?[a-zA-Z0-9]{32,}(['"])?/\<close> at the head of \<open>s\<close>: an optional
  quote, the whole run of alphanumeric characters if it has 32 of them or more, an
  optional quote.
\<close>

definition matchToken :: "string \<Rightarrow> (string \<times> nat) option" where
  "matchToken s =
     (let q1 = (case s of c # _ \<Rightarrow> if isQuote c then 1 else 0 | [] \<Rightarrow> (0::nat));
          run = takeWhile isAlnum (drop q1 s);
          q2 = (case drop (q1 + length run) s of c # _ \<Rightarrow> if isQuote c then 1 else 0
                | [] \<Rightarrow> (0::nat))
      in if 32 \<le> length run then Some (''[REDACTED]'', q1 + length run + q2) else None)"

text \<open>
  The match of \<open>/password(['"]?\s*[:=]\s*['"]?)[^'")\s]+/i\<close> at the head of \<open>s\<close>. Every
  quantifier takes all it can and no shorter choice can succeed, so the match is
  read off deterministically; the replacement is \<open>'password$1[REDACTED]'\<close>.
\<close>

definition matchPassword :: "string \<Rightarrow> (string \<times> nat) option" where
  "matchPassword s =
     (if map toLowerCase (take 8 s) = ''password'' then
        (let r0 = drop 8 s;
             q1 = (case r0 of c # _ \<Rightarrow> if isQuote c then [c] else [] | [] \<Rightarrow> []);
             r1 = drop (length q1) r0;
             ws1 = takeWhile isWhiteSpace r1;
             r2 = drop (length ws1) r1
         in case r2 of
              [] \<Rightarrow> None
            | sep # r3 \<Rightarrow>
                if sep = CHR '':'' \<or> sep = CHR ''='' then
                  (let ws2 = takeWhile isWhiteSpace r3;
                       r4 = drop (length ws2) r3;
                       q2 = (case r4 of c # _ \<Rightarrow> if isQuote c then [c] else [] | [] \<Rightarrow> []);
                       r5 = drop (length q2) r4;
                       val = takeWhile (\<lambda>c. \<not> (isQuote c \<or> c = CHR '')'' \<or> isWhiteSpace c)) r5;
                       group1 = q1 @ ws1 @ [sep] @ ws2 @ q2
                   in if val = [] then None
                      else Some (''password'' @ group1 @ ''[REDACTED]'',
                                 8 + length group1 + length val))
                else None)
      else None)"

text \<open>
  The match of \<open>/[a-zA-Z0-9._%+-]+@[a-zA-Z0-9.-]+\.[a-zA-Z]{2,}/\<close> at the head of
  \<open>s\<close>. The local part is the whole run of its class, followed by \<open>@\<close>.
  \<open>emailDomain n s\<close> has read \<open>n\<close> characters of the domain class; it first tries to
  read one more and, when that fails, to end the domain here, before a dot and two
  letters or more. It gives the length of the match from the start of the domain.
\<close>

definition isDomainChar :: "char \<Rightarrow> bool" where
  "isDomainChar c = (isAlnum c \<or> c = CHR ''.'' \<or> c = CHR ''-'')"

definition isLocalChar :: "char \<Rightarrow> bool" where
  "isLocalChar c = (isDomainChar c \<or> c = CHR ''_'' \<or> c = CHR ''%'' \<or> c = CHR ''+'')"

fun emailDomain :: "nat \<Rightarrow> string \<Rightarrow> nat option" where
  "emailDomain n [] = None"
| "emailDomain n (c # cs) =
     (case (if isDomainChar c then emailDomain (Suc n) cs else None) of
        Some len \<Rightarrow> Some len
      | None \<Rightarrow>
          if 1 \<le> n \<and> c = CHR ''.'' \<and> 2 \<le> length (takeWhile isLetter cs)
          then Some (n + 1 + length (takeWhile isLetter cs)) else None)"

definition matchEmail :: "string \<Rightarrow> (string \<times> nat) option" where
  "matchEmail s =
     (let local = takeWhile isLocalChar s
      in if local = [] then None
         else case drop (length local) s of
                [] \<Rightarrow> None
              | c # r \<Rightarrow>
                  if c = CHR ''@'' then
                    (case emailDomain 0 r of
                       Some len \<Rightarrow> Some (''[EMAIL]'', length local + 1 + len)
                     | None \<Rightarrow> None)
                  else None)"

definition sanitizeLine :: "string \<Rightarrow> string" where
  "sanitizeLine line =
     jsTrim (replaceAll matchEmail (replaceAll matchPassword (replaceAll matchToken line)))"

subsection \<open>parseChunk, determineChangeType, shouldExcludeFile\<close>

definition determineChangeType :: "string list \<Rightarrow> string list \<Rightarrow> string" where
  "determineChangeType adds dels =
     (if length adds > 0 \<and> length dels = 0 then ''added''
      else if length adds = 0 \<and> length dels > 0 then ''deleted''
      else ''modified'')"

definition belowCap :: "nat \<Rightarrow> nat option \<Rightarrow> bool" where
  \<comment> \<open>\<open>n < (maxLines ?? Infinity)\<close>\<close>
  "belowCap n maxLines = (case maxLines of None \<Rightarrow> True | Some m \<Rightarrow> n < m)"

fun parseChunkLoop ::
  "string list \<Rightarrow> nat option \<Rightarrow> string list \<times> string list \<Rightarrow> string list \<times> string list" where
  "parseChunkLoop [] maxLines st = st"
| "parseChunkLoop (line # rest) maxLines (adds, dels) =
     (if startsWith ''+'' line \<and> \<not> startsWith ''+++'' line then
        parseChunkLoop rest maxLines
          (if belowCap (length adds) maxLines then adds @ [sanitizeLine (drop 1 line)] else adds,
           dels)
      else if startsWith ''-'' line \<and> \<not> startsWith ''---'' line then
        parseChunkLoop rest maxLines
          (adds,
           if belowCap (length dels) maxLines then dels @ [sanitizeLine (drop 1 line)] else dels)
      else parseChunkLoop rest maxLines (adds, dels))"

definition parseChunk :: "string list \<Rightarrow> nat option \<Rightarrow> string list \<times> string list" where
  "parseChunk lines maxLines = parseChunkLoop lines maxLines ([], [])"

text \<open>
  \<open>minimatch\<close> is a library outside the repository: the parser takes the matcher as
  its first argument \<open>mm\<close> (file path, then pattern).
\<close>

definition shouldExcludeFile ::
  "(string \<Rightarrow> string \<Rightarrow> bool) \<Rightarrow> string \<Rightarrow> string list option \<Rightarrow> bool" where
  "shouldExcludeFile mm path patterns =
     list_ex (\<lambda>pattern. mm path pattern) (case patterns of None \<Rightarrow> [] | Some ps \<Rightarrow> ps)"

subsection \<open>parseDiff\<close>

text \<open>
  \<open>line.match(/a\/(.+) b\//)?.[1]\<close>. \<open>dotPlus pre s\<close> is the group \<open>(.+)\<close> having
  read \<open>pre\<close>: it first tries to read one more character and, when that fails, to end
  here, before \<open>' b/'\<close>. \<open>matchFilePath\<close> tries each position of the line in turn, from
  the left.
\<close>

fun dotPlus :: "string \<Rightarrow> string \<Rightarrow> string option" where
  "dotPlus pre [] = None"
| "dotPlus pre (c # cs) =
     (case (if isLineTerminator c then None else dotPlus (pre @ [c]) cs) of
        Some g \<Rightarrow> Some g
      | None \<Rightarrow> if pre \<noteq> [] \<and> startsWith '' b/'' (c # cs) then Some pre else None)"

fun matchFilePath :: "string \<Rightarrow> string option" where
  "matchFilePath [] = None"
| "matchFilePath (c # cs) =
     (if startsWith ''a/'' (c # cs) then
        (case dotPlus [] (drop 1 cs) of Some g \<Rightarrow> Some g | None \<Rightarrow> matchFilePath cs)
      else matchFilePath cs)"

definition chunkFilePath :: "string list \<Rightarrow> string" where
  \<comment> \<open>\<open>lines[0].match(...)?.[1] ?? ''\<close>; \<open>split\<close> never returns an empty array\<close>
  "chunkFilePath lines =
     (case lines of
        [] \<Rightarrow> []
      | line0 # _ \<Rightarrow> (case matchFilePath line0 of Some g \<Rightarrow> g | None \<Rightarrow> []))"

fun parseDiffLoop ::
  "(string \<Rightarrow> string \<Rightarrow> bool) \<Rightarrow> DiffParseOptions \<Rightarrow> string list \<Rightarrow> ParsedDiff list
     \<Rightarrow> ParsedDiff list" where
  "parseDiffLoop mm opts [] parsedDiffs = parsedDiffs"
| "parseDiffLoop mm opts (chunk # rest) parsedDiffs =
     (if jsTrim chunk = [] then parseDiffLoop mm opts rest parsedDiffs
      else
        (let lines = jsSplit chunk newline;
             path = chunkFilePath lines
         in if path = [] \<or> shouldExcludeFile mm path (readProperty (excludePatterns opts))
            then parseDiffLoop mm opts rest parsedDiffs
            else
              (let (adds, dels) = parseChunk lines (readProperty (maxLinesPerFile opts))
               in parseDiffLoop mm opts rest
                    (parsedDiffs @
                       [\<lparr>filePath = path, additions = adds, deletions = dels,
                         changeType = determineChangeType adds dels\<rparr>]))))"

definition parseDiff ::
  "(string \<Rightarrow> string \<Rightarrow> bool) \<Rightarrow> string \<Rightarrow> DiffParseOptions \<Rightarrow> ParsedDiff list" where
  "parseDiff mm diff options =
     (let opts = spread DEFAULT_OPTIONS options;
          fileChunks = jsSplit diff ''diff --git''
      in parseDiffLoop mm opts fileChunks [])"

text \<open>
  \<open>getStagedDiff\<close>: \<open>git_result\<close> is what \<open>simpleGit(rootDir).diff(['--cached'])\<close>
  does in this call, the text it resolves with or the error it throws. The
  \<open>catch\<close> block throws a new \<open>Error\<close>.
\<close>

definition getStagedDiff ::
  "(string \<Rightarrow> string \<Rightarrow> bool) \<Rightarrow> js_error + string \<Rightarrow> js_error + ParsedDiff list" where
  "getStagedDiff mm git_result =
     (case git_result of
        Inl error \<Rightarrow> Inl (new_Error (''Failed to get staged diff: '' @ error_message error))
      | Inr stagedDiff \<Rightarrow> Inr (parseDiff mm stagedDiff no_options))"

text \<open>
  A model of \<open>minimatch\<close> for the patterns the closed examples use, made of literal
  characters and \<open>*\<close>: \<open>*\<close> stands for any run of characters other than \<open>/\<close>, and
  a pattern that starts with \<open>*\<close> matches no path that starts with a dot.
\<close>

fun glob :: "string \<Rightarrow> string \<Rightarrow> bool" where
  "glob [] s = (s = [])"
| "glob (p # ps) [] = (p = CHR ''*'' \<and> glob ps [])"
| "glob (p # ps) (c # cs) =
     (if p = CHR ''*'' then glob ps (c # cs) \<or> (c \<noteq> CHR ''/'' \<and> glob (p # ps) cs)
      else p = c \<and> glob ps cs)"

definition minimatch :: "string \<Rightarrow> string \<Rightarrow> bool" where
  "minimatch path pattern =
     (glob pattern path \<and> \<not> (startsWith ''*'' pattern \<and> startsWith ''.'' path))"


section \<open>Prompt templates (src/tools/llm/prompt-templates.ts)\<close>

definition FALLBACK_COMMIT_TEMPLATE :: "string list \<Rightarrow> ChangeType \<Rightarrow> string" where
  "FALLBACK_COMMIT_TEMPLATE fs ty = ty @ '': update '' @ join '', '' fs"

fun collapseWhiteSpace :: "bool \<Rightarrow> string \<Rightarrow> string" where
  \<comment> \<open>\<open>.replace(/\s+/g, ' ')\<close>; the flag says that the scan is inside a run of white space\<close>
  "collapseWhiteSpace inRun [] = []"
| "collapseWhiteSpace inRun (c # cs) =
     (if isWhiteSpace c
      then (if inRun then collapseWhiteSpace True cs else CHR '' '' # collapseWhiteSpace True cs)
      else c # collapseWhiteSpace False cs)"

text \<open>
  \<open>files.sort()\<close> sorts the array it is called on, in place, by code units, and
  returns that same array. The model returns the key together with the contents of
  the caller's array after the call.
\<close>

definition generateCacheKey :: "string list \<Rightarrow> string \<Rightarrow> string \<times> string list" where
  "generateCacheKey fs diff =
     (let sorted = sort fs;
          fileHash = join ''|'' sorted;
          diffPreview = collapseWhiteSpace False (take 100 diff)
      in (fileHash @ '':'' @ diffPreview, sorted))"

section \<open>Commit cache (src/unnamed/part\_001, imported as tools/cache/commit-cache)\<close>

record CacheEntry =
  response :: LLMResponse
  timestamp :: int
  hitCount :: nat

text \<open>
  The JavaScript \<open>Map\<close> iterates in insertion order, so it is an association list:
  \<open>Map_set\<close> on a present key keeps the key's place and replaces the value, on an
  absent key appends; \<open>Map_delete\<close> removes the key; \<open>map_of\<close> is \<open>Map.get\<close>
  and \<open>length\<close> is \<open>size\<close>.
\<close>

fun Map_set :: "string \<Rightarrow> 'v \<Rightarrow> (string \<times> 'v) list \<Rightarrow> (string \<times> 'v) list" where
  "Map_set k v [] = [(k, v)]"
| "Map_set k v ((k', v') # m) = (if k' = k then (k, v) # m else (k', v') # Map_set k v m)"

definition Map_delete :: "string \<Rightarrow> (string \<times> 'v) list \<Rightarrow> (string \<times> 'v) list" where
  "Map_delete k m = filter (\<lambda>kv. fst kv \<noteq> k) m"

text \<open>
  \<open>maxSize\<close> and \<open>ttlMs\<close> are the constructor's numbers (\<open>ttlMs = ttlHours * 60 * 60 * 1000\<close>),
  taken as integers; a reading of \<open>Date.now()\<close> is an integer (milliseconds).
\<close>

record CommitCache =
  cache :: "(string \<times> CacheEntry) list"
  maxSize :: int
  ttlMs :: int

definition new_CommitCache :: "int \<Rightarrow> int \<Rightarrow> CommitCache" where
  "new_CommitCache maxSize' ttlHours =
     \<lparr>cache = [], maxSize = maxSize', ttlMs = ttlHours * 60 * 60 * 1000\<rparr>"

definition commitCache :: CommitCache where
  \<comment> \<open>the exported instance \<open>new CommitCache()\<close>: \<open>maxSize = 100\<close>, \<open>ttlHours = 24\<close>\<close>
  "commitCache = new_CommitCache 100 24"

text \<open>
  \<open>get\<close> reads the clock twice on a live hit: \<open>now1\<close> is the reading of the expiry
  test, \<open>now2\<close> the one stored as the new timestamp. The entry object is mutated in
  place, which is an update of the value under the key. The result is the returned
  value (\<open>None\<close> for \<open>undefined\<close>) and the cache after the call.
\<close>

definition CommitCache_get ::
  "CommitCache \<Rightarrow> string \<Rightarrow> int \<Rightarrow> int \<Rightarrow> LLMResponse option \<times> CommitCache" where
  "CommitCache_get c key now1 now2 =
     (case map_of (cache c) key of
        None \<Rightarrow> (None, c)
      | Some entry \<Rightarrow>
          if now1 - timestamp entry > ttlMs c
          then (None, c\<lparr>cache := Map_delete key (cache c)\<rparr>)
          else (Some (response entry),
                c\<lparr>cache := Map_set key
                       (entry\<lparr>hitCount := hitCount entry + 1, timestamp := now2\<rparr>) (cache c)\<rparr>))"

text \<open>
  The loop of \<open>evictLeastUsed\<close>, with its two variables as the state:
  \<open>leastUsedKey\<close> (\<open>None\<close> for \<open>undefined\<close>) and \<open>minHits\<close> (\<open>None\<close> for
  \<open>Infinity\<close>).
\<close>

fun leastUsedLoop ::
  "(string \<times> CacheEntry) list \<Rightarrow> string option \<times> nat option \<Rightarrow> string option \<times> nat option" where
  "leastUsedLoop [] st = st"
| "leastUsedLoop ((key, entry) # rest) (leastUsedKey, minHits) =
     (if (case minHits of None \<Rightarrow> True | Some m \<Rightarrow> hitCount entry < m)
      then leastUsedLoop rest (Some key, Some (hitCount entry))
      else leastUsedLoop rest (leastUsedKey, minHits))"

text \<open>
  \<open>if (leastUsedKey)\<close> is a truthiness test: it fails for \<open>undefined\<close> and for the
  empty string.
\<close>

definition evictLeastUsed :: "CommitCache \<Rightarrow> CommitCache" where
  "evictLeastUsed c =
     (case fst (leastUsedLoop (cache c) (None, None)) of
        None \<Rightarrow> c
      | Some leastUsedKey \<Rightarrow>
          if leastUsedKey \<noteq> [] then c\<lparr>cache := Map_delete leastUsedKey (cache c)\<rparr> else c)"

definition CommitCache_set :: "CommitCache \<Rightarrow> string \<Rightarrow> LLMResponse \<Rightarrow> int \<Rightarrow> CommitCache" where
  "CommitCache_set c key resp now =
     (let c1 = (if int (length (cache c)) \<ge> maxSize c then evictLeastUsed c else c)
      in c1\<lparr>cache := Map_set key \<lparr>response = resp, timestamp = now, hitCount = 1\<rparr> (cache c1)\<rparr>)"

section \<open>Commit analyzer (src/unnamed/part\_000, imported as tools/git/commit-analyzer)\<close>

definition TIMEOUT_MS :: nat where
  "TIMEOUT_MS = 2000"

definition MAX_RETRIES :: nat where
  "MAX_RETRIES = 2"

definition BATCH_SIZE :: nat where
  "BATCH_SIZE = 3"

subsection \<open>Promises and time\<close>

text \<open>
  A promise is the time it takes to settle, in milliseconds from its creation, and what
  it settles with: \<open>Inl\<close> a rejection, \<open>Inr\<close> a value.
\<close>

type_synonym 'a promise = "nat \<times> (js_error + 'a)"

text \<open>
  \<open>withTimeout\<close> races the promise against a timer of \<open>ms\<close> milliseconds that
  rejects with a plain \<open>Error\<close>. A promise that settles in the same millisecond as
  the timer is taken to win.
\<close>

definition withTimeout :: "'a promise \<Rightarrow> nat \<Rightarrow> 'a promise" where
  "withTimeout promise ms =
     (if fst promise \<le> ms then promise
      else (ms, Inl (new_Error (''Timeout after '' @ showNat ms @ ''ms''))))"

text \<open>
  \<open>withRetries\<close>: \<open>fn k\<close> is the promise that the \<open>k\<close>-th call of the thunk
  returns (the first call is number 1, the default of \<open>attempt\<close>). After a failure
  that is not the last one the function waits \<open>2 ^ attempt * 100\<close> milliseconds
  and calls itself.
\<close>

function withRetries :: "(nat \<Rightarrow> 'a promise) \<Rightarrow> nat \<Rightarrow> nat \<Rightarrow> 'a promise" where
  "withRetries fn maxRetries attempt =
     (case snd (fn attempt) of
        Inr v \<Rightarrow> fn attempt
      | Inl error \<Rightarrow>
          if attempt \<ge> maxRetries then fn attempt
          else (fst (fn attempt) + 2 ^ attempt * 100
                  + fst (withRetries fn maxRetries (attempt + 1)),
                snd (withRetries fn maxRetries (attempt + 1))))"
  by pat_completeness auto
termination
  by (relation "measure (\<lambda>(fn, maxRetries, attempt). maxRetries - attempt)") auto

declare withRetries.simps [simp del]

text \<open>
  \<open>Promise.all\<close> over promises created together: it rejects with the rejection
  that comes first in time (the one of lowest index among those of the same
  millisecond), and otherwise resolves with all the values when the last has come.
\<close>

fun firstRejection :: "'a promise list \<Rightarrow> (nat \<times> js_error) option" where
  "firstRejection [] = None"
| "firstRejection ((t, Inr v) # ps) = firstRejection ps"
| "firstRejection ((t, Inl e) # ps) =
     (case firstRejection ps of
        Some (t', e') \<Rightarrow> if t' < t then Some (t', e') else Some (t, e)
      | None \<Rightarrow> Some (t, e))"

fun fulfilled :: "'a promise list \<Rightarrow> 'a list" where
  "fulfilled [] = []"
| "fulfilled ((t, Inr v) # ps) = v # fulfilled ps"
| "fulfilled ((t, Inl e) # ps) = fulfilled ps"

definition Promise_all :: "'a promise list \<Rightarrow> ('a list) promise" where
  "Promise_all ps =
     (case firstRejection ps of
        Some (t, e) \<Rightarrow> (t, Inl e)
      | None \<Rightarrow> (fold max (map fst ps) 0, Inr (fulfilled ps)))"

subsection \<open>The model collaborator and getLLMResponse\<close>

text \<open>
  What \<open>JSON.parse\<close> makes of the text the provider resolves with, as far as the
  program reads it: a value that is falsy or not an object, or an object read through
  \<open>Partial<LLMResponse>\<close> (a property that is absent is \<open>None\<close>; a property that is
  present has the type the interface declares).
\<close>

record RawResponse =
  raw_type :: "string option"
  raw_commitMessage :: "string option"
  raw_scope :: "string option"
  raw_breaking :: bool
  raw_details :: "string option"

datatype json_value = NotAnObject | JsonObject RawResponse

text \<open>
  One call of \<open>ai.generateCommitMessage(prompt)\<close>: it rejects, or it resolves with
  a text, on which \<open>JSON.parse\<close> throws a \<open>SyntaxError\<close> (\<open>None\<close>) or returns a
  value. \<open>latency\<close> is the time the call takes.
\<close>

datatype provider_result = Rejected js_error | Resolved "json_value option"

record attempt =
  latency :: nat
  result :: provider_result

definition validateLLMResponse :: "json_value \<Rightarrow> js_error + LLMResponse" where
  "validateLLMResponse v =
     (case v of
        NotAnObject \<Rightarrow> Inl (new_InvalidResponseError ''Response must be an object'')
      | JsonObject raw \<Rightarrow>
          (case (raw_type raw, raw_commitMessage raw) of
             (Some ty, Some msg) \<Rightarrow>
               if ty = [] \<or> msg = [] then
                 Inl (new_InvalidResponseError ''Missing required fields: type or commitMessage'')
               else if ty \<in> set [''feat'', ''fix'', ''refactor'', ''docs'', ''test'', ''chore'',
                                  ''style'', ''perf''] then
                 Inr \<lparr>commitMessage = msg, r_type = ty, scope = raw_scope raw,
                      breaking = raw_breaking raw, details = raw_details raw\<rparr>
               else Inl (new_InvalidResponseError (''Invalid change type: '' @ ty))
           | _ \<Rightarrow>
               Inl (new_InvalidResponseError ''Missing required fields: type or commitMessage'')))"

text \<open>
  \<open>getLLMResponse\<close>, the second, validation-using definition of the file (a later
  function declaration replaces an earlier one of the same name; the first one differs
  in how it classifies a response and a failure of the provider, not in when it
  settles). The promise it returns settles when the provider's call does.
\<close>

definition getLLMResponse :: "attempt \<Rightarrow> LLMResponse promise" where
  "getLLMResponse a =
     (latency a,
      case result a of
        Resolved (Some parsed) \<Rightarrow> validateLLMResponse parsed
      | Resolved None \<Rightarrow> Inl (new_InvalidResponseError ''Invalid JSON response from LLM'')
      | Rejected error \<Rightarrow>
          if error_class error = InvalidResponseError then Inl error
          else if error_class error = SyntaxError then
            Inl (new_InvalidResponseError ''Invalid JSON response from LLM'')
          else if jsIncludes (error_message error) ''Timeout'' then Inl (new_LLMTimeoutError TIMEOUT_MS)
          else Inl error)"

text \<open>
  The expression both call sites wrap a model call in:
  \<open>withTimeout(withRetries(() => getLLMResponse(prompt), MAX_RETRIES), TIMEOUT_MS)\<close>.
  \<open>provider k\<close> is what the provider does on the \<open>k\<close>-th call with this prompt.
\<close>

definition callLLM :: "(nat \<Rightarrow> attempt) \<Rightarrow> LLMResponse promise" where
  "callLLM provider =
     withTimeout (withRetries (\<lambda>k. getLLMResponse (provider k)) MAX_RETRIES 1) TIMEOUT_MS"

subsection \<open>processDiffsConcurrently and consolidateAnalysis\<close>

record FileAnalysis =
  fa_file :: string
  fa_type :: ChangeType
  fa_scope :: "string option"
  fa_description :: string
  fa_breaking :: bool

fun dedupe :: "'a list \<Rightarrow> 'a list" where
  \<comment> \<open>\<open>[...new Set(xs)]\<close>: the first occurrence of each element, in order\<close>
  "dedupe [] = []"
| "dedupe (x # xs) = x # dedupe (filter (\<lambda>y. y \<noteq> x) xs)"

fun groupChanges ::
  "FileAnalysis list \<Rightarrow> (string \<times> ChangeCategory) list \<Rightarrow> (string \<times> ChangeCategory) list" where
  "groupChanges [] changes = changes"
| "groupChanges (a # rest) changes =
     (let key = fa_type a @ '':'' @ (case fa_scope a of None \<Rightarrow> [] | Some s \<Rightarrow> s)
      in if map_of changes key = None
         then groupChanges rest
                (Map_set key \<lparr>cc_type = fa_type a, cc_scope = fa_scope a,
                               cc_description = fa_description a\<rparr> changes)
         else groupChanges rest changes)"

definition consolidateAnalysis :: "FileAnalysis list \<Rightarrow> CommitAnalysis" where
  "consolidateAnalysis fileAnalyses =
     \<lparr>files = map fa_file fileAnalyses,
      summary = [],
      impactedAreas =
        dedupe (concat (map (\<lambda>a. case fa_scope a of None \<Rightarrow> [] | Some s \<Rightarrow> [s]) fileAnalyses)),
      changeTypes = map snd (groupChanges fileAnalyses []),
      breakingChanges = list_ex fa_breaking fileAnalyses\<rparr>"

text \<open>
  The prompt of a model call is built from one parsed diff or from the consolidated
  analysis; the provider's behaviour is given per request and per call number, the
  request standing for its prompt text.
\<close>

datatype llm_request = AnalyzeFile ParsedDiff | Summarize CommitAnalysis

definition analyzeOne :: "(llm_request \<Rightarrow> nat \<Rightarrow> attempt) \<Rightarrow> ParsedDiff \<Rightarrow> FileAnalysis promise" where
  \<comment> \<open>the body of \<open>batch.map(async diff => ...)\<close>\<close>
  "analyzeOne llm diff =
     (let p = callLLM (llm (AnalyzeFile diff))
      in (fst p,
          case snd p of
            Inl error \<Rightarrow> Inl error
          | Inr resp \<Rightarrow>
              Inr \<lparr>fa_file = filePath diff, fa_type = r_type resp, fa_scope = scope resp,
                   fa_description = commitMessage resp, fa_breaking = breaking resp\<rparr>))"

text \<open>
  The batch loop: \<open>diffs\<close> is what is left from index \<open>i\<close> on. The pause of 100
  milliseconds between two batches changes no result and is left out.
\<close>

function processLoop ::
  "(llm_request \<Rightarrow> nat \<Rightarrow> attempt) \<Rightarrow> ParsedDiff list \<Rightarrow> FileAnalysis list
     \<Rightarrow> js_error + FileAnalysis list" where
  "processLoop llm diffs results =
     (if diffs = [] then Inr results
      else case snd (Promise_all (map (analyzeOne llm) (take BATCH_SIZE diffs))) of
             Inl error \<Rightarrow> Inl error
           | Inr batchResults \<Rightarrow>
               processLoop llm (drop BATCH_SIZE diffs) (results @ batchResults))"
  by pat_completeness auto
termination
  by (relation "measure (\<lambda>(llm, diffs, results). length diffs)") (auto simp: BATCH_SIZE_def)

declare processLoop.simps [simp del]

definition processDiffsConcurrently ::
  "(llm_request \<Rightarrow> nat \<Rightarrow> attempt) \<Rightarrow> ParsedDiff list \<Rightarrow> js_error + CommitAnalysis" where
  "processDiffsConcurrently llm diffs =
     (case processLoop llm diffs [] of
        Inl error \<Rightarrow> Inl error
      | Inr results \<Rightarrow> Inr (consolidateAnalysis results))"

subsection \<open>analyzeCommit\<close>

record AnalyzeResult =
  message :: string
  analysis :: CommitAnalysis

definition createAnalysisFromLLMResponse :: "LLMResponse \<Rightarrow> string list \<Rightarrow> CommitAnalysis" where
  "createAnalysisFromLLMResponse resp fs =
     \<lparr>files = fs,
      summary = (case details resp of None \<Rightarrow> [] | Some d \<Rightarrow> d),
      impactedAreas = (case scope resp of None \<Rightarrow> [] | Some s \<Rightarrow> if s \<noteq> [] then [s] else []),
      changeTypes = [\<lparr>cc_type = r_type resp, cc_scope = scope resp,
                       cc_description = commitMessage resp\<rparr>],
      breakingChanges = breaking resp\<rparr>"

text \<open>
  Modelled from the spec: the head of \<open>createEmptyAnalysis\<close> is missing from the
  source, which keeps only the end of its body (\<open>changeTypes: [], breakingChanges:
  false\<close>). Its parameter (the file list, \<open>None\<close> when the call gives none) and the
  fields \<open>files\<close>, \<open>summary\<close> and \<open>impactedAreas\<close> follow the two call sites, the
  spec ("a fixed message and an empty analysis", "an empty file list") and the
  repository's test of the case without changes.
\<close>

definition createEmptyAnalysis :: "string list option \<Rightarrow> CommitAnalysis" where
  "createEmptyAnalysis fs =
     \<lparr>files = (case fs of None \<Rightarrow> [] | Some l \<Rightarrow> l),
      summary = [],
      impactedAreas = [],
      changeTypes = [],
      breakingChanges = False\<rparr>"

definition cacheKeyOf :: "ParsedDiff list \<Rightarrow> string" where
  \<comment> \<open>the call of \<open>generateCacheKey\<close> that \<open>checkCommitCache\<close> and \<open>analyzeCommit\<close> both make,
      on fresh arrays\<close>
  "cacheKeyOf diffs =
     fst (generateCacheKey (map filePath diffs)
            (join newline
               (map (\<lambda>d. join newline (additions d) @ newline @ join newline (deletions d)) diffs)))"

text \<open>
  \<open>checkCommitCache\<close> builds its analysis with the object literal that
  \<open>createAnalysisFromLLMResponse\<close> has, on the cached response.
\<close>

definition checkCommitCache ::
  "ParsedDiff list \<Rightarrow> CommitCache \<Rightarrow> int \<Rightarrow> int \<Rightarrow> AnalyzeResult option \<times> CommitCache" where
  "checkCommitCache diffs c now1 now2 =
     (case CommitCache_get c (cacheKeyOf diffs) now1 now2 of
        (None, c') \<Rightarrow> (None, c')
      | (Some cached, c') \<Rightarrow>
          (Some \<lparr>message = commitMessage cached,
                  analysis = createAnalysisFromLLMResponse cached (map filePath diffs)\<rparr>, c'))"

definition generateCommitMessage ::
  "(llm_request \<Rightarrow> nat \<Rightarrow> attempt) \<Rightarrow> ParsedDiff list \<Rightarrow> js_error + AnalyzeResult" where
  "generateCommitMessage llm diffs =
     (case processDiffsConcurrently llm diffs of
        Inl error \<Rightarrow> Inl error
      | Inr fileAnalysis \<Rightarrow>
          (case snd (callLLM (llm (Summarize fileAnalysis))) of
             Inl error \<Rightarrow> Inl error
           | Inr llmResponse \<Rightarrow>
               Inr \<lparr>message = commitMessage llmResponse,
                    analysis = createAnalysisFromLLMResponse llmResponse (map filePath diffs)\<rparr>))"

text \<open>
  The collaborators of one run of \<open>analyzeCommit\<close>: \<open>git_diff rootDir k\<close> is what
  the \<open>k\<close>-th call of \<open>git.diff(['--cached'])\<close> does (the run makes the call number 0
  and, in the fallback, the call number 1); \<open>llm\<close> is the model provider; the three
  clock readings are those of the cache's \<open>get\<close> and \<open>set\<close>.
\<close>

record world =
  git_diff :: "string \<Rightarrow> nat \<Rightarrow> js_error + string"
  llm :: "llm_request \<Rightarrow> nat \<Rightarrow> attempt"
  now_get1 :: int
  now_get2 :: int
  now_set :: int

text \<open>
  The \<open>try\<close> block: what it returns or throws, and the shared cache afterwards.
\<close>

definition tryBlock ::
  "(string \<Rightarrow> string \<Rightarrow> bool) \<Rightarrow> world \<Rightarrow> CommitCache \<Rightarrow> string
     \<Rightarrow> (js_error + AnalyzeResult) \<times> CommitCache" where
  "tryBlock mm w c rootDir =
     (case getStagedDiff mm (git_diff w rootDir 0) of
        Inl error \<Rightarrow> (Inl error, c)
      | Inr diffs \<Rightarrow>
          if length diffs = 0 then (Inl new_NoChangesError, c)
          else
            (case checkCommitCache diffs c (now_get1 w) (now_get2 w) of
               (Some cached, c1) \<Rightarrow> (Inr cached, c1)
             | (None, c1) \<Rightarrow>
                 (case generateCommitMessage (llm w) diffs of
                    Inl error \<Rightarrow> (Inl error, c1)
                  | Inr res \<Rightarrow>
                      (let first = (case changeTypes (analysis res) of
                                      [] \<Rightarrow> None | ct # _ \<Rightarrow> Some ct)
                       in (Inr res,
                           CommitCache_set c1 (cacheKeyOf diffs)
                             \<lparr>commitMessage = message res,
                              r_type = (case first of None \<Rightarrow> ''chore'' | Some ct \<Rightarrow> cc_type ct),
                              scope = (case first of None \<Rightarrow> None | Some ct \<Rightarrow> cc_scope ct),
                              breaking = breakingChanges (analysis res),
                              details = Some (summary (analysis res))\<rparr>
                             (now_set w))))))"

text \<open>
  The \<open>catch\<close> block. \<open>inferChangeType\<close> is missing from the source and is taken as
  the parameter \<open>infer\<close>. The two warnings written to the console are left out.
\<close>

definition catchBlock ::
  "(string \<Rightarrow> string \<Rightarrow> bool) \<Rightarrow> (string list \<Rightarrow> ChangeType) \<Rightarrow> world \<Rightarrow> string \<Rightarrow> js_error
     \<Rightarrow> js_error + AnalyzeResult" where
  "catchBlock mm infer w rootDir error =
     (if error_class error = NoChangesError then
        Inr \<lparr>message = error_message error, analysis = createEmptyAnalysis None\<rparr>
      else if error_class error = LLMTimeoutError \<or> error_class error = InvalidResponseError then
        (case getStagedDiff mm (git_diff w rootDir 1) of
           Inl error2 \<Rightarrow> Inl error2
         | Inr diffs \<Rightarrow>
             (let fs = map filePath diffs;
                  ty = infer fs
              in Inr \<lparr>message = FALLBACK_COMMIT_TEMPLATE fs ty,
                      analysis = createEmptyAnalysis (Some fs)\<rparr>))
      else if error_class error = GitError then Inl error
      else Inl error)"

definition analyzeCommit ::
  "(string \<Rightarrow> string \<Rightarrow> bool) \<Rightarrow> (string list \<Rightarrow> ChangeType) \<Rightarrow> world \<Rightarrow> CommitCache \<Rightarrow> string
     \<Rightarrow> (js_error + AnalyzeResult) \<times> CommitCache" where
  "analyzeCommit mm infer w c rootDir =
     (case tryBlock mm w c rootDir of
        (Inr res, c') \<Rightarrow> (Inr res, c')
      | (Inl error, c') \<Rightarrow> (catchBlock mm infer w rootDir error, c'))"

section \<open>Concrete inputs\<close>

definition someResponse :: LLMResponse where
  "someResponse = \<lparr>commitMessage = ''feat(x): add y'', r_type = ''feat'', scope = Some ''x'',
     breaking = False, details = None\<rparr>"

definition otherResponse :: LLMResponse where
  "otherResponse = \<lparr>commitMessage = ''fix: repair z'', r_type = ''fix'', scope = None,
     breaking = False, details = Some ''z''\<rparr>"

definition hotEntry :: CacheEntry where
  \<comment> \<open>an entry written at time 0 and read four times since\<close>
  "hotEntry = \<lparr>response = someResponse, timestamp = 40, hitCount = 5\<rparr>"

definition freshEntry :: CacheEntry where
  "freshEntry = \<lparr>response = someResponse, timestamp = 0, hitCount = 1\<rparr>"

definition warmCache :: CommitCache where
  "warmCache = \<lparr>cache = [(''k'', hotEntry)], maxSize = 100, ttlMs = 86400000\<rparr>"

definition fullCache :: CommitCache where
  \<comment> \<open>\<open>new CommitCache(1)\<close> after \<open>set('', someResponse)\<close> at time 0\<close>
  "fullCache = \<lparr>cache = [('''', freshEntry)], maxSize = 1, ttlMs = 86400000\<rparr>"

definition diffOneFile :: string where
  \<comment> \<open>one new file with one added line\<close>
  "diffOneFile = ''diff --git a/f.ts b/f.ts'' @ newline @ ''+x''"

definition diffTwoFiles :: string where
  "diffTwoFiles = ''diff --git a/api.ts b/api.ts'' @ newline @ ''-old'' @ newline @ ''+new''
     @ newline @ ''diff --git a/gone.ts b/gone.ts'' @ newline @ ''-bye''"

definition validReply :: provider_result where
  \<comment> \<open>the text \<open>{"type":"feat","scope":"x","commitMessage":"feat(x): add y","breaking":false}\<close>\<close>
  "validReply = Resolved (Some (JsonObject
     \<lparr>raw_type = Some ''feat'', raw_commitMessage = Some ''feat(x): add y'',
      raw_scope = Some ''x'', raw_breaking = False, raw_details = None\<rparr>))"

definition malformedReply :: provider_result where
  \<comment> \<open>a text that is not JSON\<close>
  "malformedReply = Resolved None"

definition inferChore :: "string list \<Rightarrow> ChangeType" where
  \<comment> \<open>stands for the missing \<open>inferChangeType\<close> in the closed examples\<close>
  "inferChore fs = ''chore''"



definition slowModelWorld :: world where
  \<comment> \<open>one staged file; every call of the provider answers after 3 seconds\<close>
  "slowModelWorld = \<lparr>git_diff = (\<lambda>rootDir k. Inr diffOneFile),
     llm = (\<lambda>req k. \<lparr>latency = 3000, result = validReply\<rparr>),
     now_get1 = 0, now_get2 = 0, now_set = 0\<rparr>"

definition malformedModelWorld :: world where
  \<comment> \<open>one staged file; every call of the provider answers at once with a text that is not JSON\<close>
  "malformedModelWorld = \<lparr>git_diff = (\<lambda>rootDir k. Inr diffOneFile),
     llm = (\<lambda>req k. \<lparr>latency = 10, result = malformedReply\<rparr>),
     now_get1 = 0, now_get2 = 0, now_set = 0\<rparr>"

definition slowRetryProvider :: "nat \<Rightarrow> attempt" where
  \<comment> \<open>the first call answers after 1.5 seconds with a text that is not JSON, every later
      call after 1.5 seconds with a valid response\<close>
  "slowRetryProvider k =
     (if k = 1 then \<lparr>latency = 1500, result = malformedReply\<rparr>
      else \<lparr>latency = 1500, result = validReply\<rparr>)"

definition quickRetryProvider :: "nat \<Rightarrow> attempt" where
  "quickRetryProvider k =
     (if k = 1 then \<lparr>latency = 100, result = malformedReply\<rparr>
      else \<lparr>latency = 100, result = validReply\<rparr>)"

definition oneFileBlock :: string where
  \<comment> \<open>the block of one file with one added line\<close>
  "oneFileBlock = ''diff --git a/f b/f'' @ newline @ ''+x'' @ newline"

definition blockBody :: string where
  \<comment> \<open>\<open>oneFileBlock\<close> after its boundary marker\<close>
  "blockBody = '' a/f b/f'' @ newline @ ''+x'' @ newline"

definition repeatedDiff :: "nat \<Rightarrow> string" where
  \<comment> \<open>\<open>n\<close> file blocks, one after the other\<close>
  "repeatedDiff n = concat (replicate n oneFileBlock)"


definition paddedDiff :: "nat \<Rightarrow> string" where
  \<comment> \<open>the block of one file with one added line, followed by \<open>n\<close> more characters\<close>
  "paddedDiff n =
     ''diff --git a/f b/f'' @ newline @ ''+x'' @ newline @ replicate n (CHR ''y'')"

section \<open>Properties of the cache\<close>

lemma map_of_Map_set_same: "map_of (Map_set k v m) k = Some v"
  by (induction m) auto

lemma list_all_Map_set: "list_all P m \<Longrightarrow> P (k, v) \<Longrightarrow> list_all P (Map_set k v m)"
  by (induction m) auto

lemma list_all_Map_delete: "list_all P m \<Longrightarrow> list_all P (Map_delete k m)"
  by (induction m) (auto simp: Map_delete_def)

lemma ttlMs_evictLeastUsed: "ttlMs (evictLeastUsed c) = ttlMs c"
  by (simp add: evictLeastUsed_def split: option.splits)

lemma list_all_evictLeastUsed: "list_all P (cache c) \<Longrightarrow> list_all P (cache (evictLeastUsed c))"
  by (simp add: evictLeastUsed_def list_all_Map_delete split: option.splits)

lemma ttlMs_CommitCache_set: "ttlMs (CommitCache_set c k r now) = ttlMs c"
  by (simp add: CommitCache_set_def Let_def ttlMs_evictLeastUsed)

lemma CommitCache_set_lookup:
  "map_of (cache (CommitCache_set c k r now)) k =
     Some \<lparr>response = r, timestamp = now, hitCount = 1\<rparr>"
  by (simp add: CommitCache_set_def Let_def map_of_Map_set_same)

lemma list_all_CommitCache_set:
  assumes "list_all P (cache c)" and "P (k, \<lparr>response = r, timestamp = now, hitCount = 1\<rparr>)"
  shows "list_all P (cache (CommitCache_set c k r now))"
  using assms
  by (simp add: CommitCache_set_def Let_def list_all_Map_set list_all_evictLeastUsed)

text \<open>
  C7. \<open>set(k, r)\<close> at time \<open>t0\<close> followed by \<open>get(k)\<close> whose expiry test reads a
  time \<open>t1\<close> with the TTL not elapsed (\<open>t1 - t0 > ttlMs\<close> is false) returns \<open>r\<close>;
  the entry has \<open>hitCount\<close> 1 after the insertion and 2 after the hit, and the hit
  stores the clock reading \<open>t2\<close> it takes as the new timestamp. This holds for every
  cache state, key and response.
\<close>

theorem set_then_get_roundtrip:
  assumes "\<not> (t1 - t0 > ttlMs c)"
  shows "map_of (cache (CommitCache_set c k r t0)) k
           = Some \<lparr>response = r, timestamp = t0, hitCount = 1\<rparr>
       \<and> fst (CommitCache_get (CommitCache_set c k r t0) k t1 t2) = Some r
       \<and> map_of (cache (snd (CommitCache_get (CommitCache_set c k r t0) k t1 t2))) k
           = Some \<lparr>response = r, timestamp = t2, hitCount = 2\<rparr>"
  using assms
  by (simp add: CommitCache_get_def CommitCache_set_lookup ttlMs_CommitCache_set
      map_of_Map_set_same)

theorem set_then_get_roundtrip_witness:
  "\<not> (1500 - 1000 > ttlMs commitCache)
   \<and> map_of (cache (CommitCache_set commitCache ''k'' someResponse 1000)) ''k''
       = Some \<lparr>response = someResponse, timestamp = 1000, hitCount = 1\<rparr>
   \<and> fst (CommitCache_get (CommitCache_set commitCache ''k'' someResponse 1000) ''k'' 1500 1501)
       = Some someResponse
   \<and> map_of (cache (snd (CommitCache_get (CommitCache_set commitCache ''k'' someResponse 1000)
        ''k'' 1500 1501))) ''k''
       = Some \<lparr>response = someResponse, timestamp = 1501, hitCount = 2\<rparr>"
proof -
  have live: "\<not> (1500 - 1000 > ttlMs commitCache)"
    by (simp add: commitCache_def new_CommitCache_def)
  show ?thesis
    using live set_then_get_roundtrip [OF live, of "''k''" someResponse 1501] by simp
qed

text \<open>
  C10. For a key \<open>k\<close> that the cache holds, \<open>set(k, r')\<close> at time \<open>now\<close> leaves
  under \<open>k\<close> the entry with response \<open>r'\<close>, timestamp \<open>now\<close> and \<open>hitCount\<close> 1,
  whatever \<open>hitCount\<close> the old entry had reached. When every entry of the cache has
  a \<open>hitCount\<close> of at least 1 (entries start at 1 and are only incremented), no entry
  of the cache after the call has a \<open>hitCount\<close> below that of \<open>k\<close>: the entry is
  again among the least frequently used.
\<close>

theorem set_resets_present_entry:
  assumes "map_of (cache c) k = Some old"
  shows "map_of (cache (CommitCache_set c k r' now)) k
           = Some \<lparr>response = r', timestamp = now, hitCount = 1\<rparr>
       \<and> (list_all (\<lambda>kv. 1 \<le> hitCount (snd kv)) (cache c)
            \<longrightarrow> list_all (\<lambda>kv. 1 \<le> hitCount (snd kv)) (cache (CommitCache_set c k r' now)))"
proof (intro conjI impI)
  show "map_of (cache (CommitCache_set c k r' now)) k
          = Some \<lparr>response = r', timestamp = now, hitCount = 1\<rparr>"
    by (rule CommitCache_set_lookup)
next
  assume "list_all (\<lambda>kv. 1 \<le> hitCount (snd kv)) (cache c)"
  then show "list_all (\<lambda>kv. 1 \<le> hitCount (snd kv)) (cache (CommitCache_set c k r' now))"
    by (rule list_all_CommitCache_set) simp
qed

theorem set_resets_present_entry_witness:
  "map_of (cache warmCache) ''k'' = Some hotEntry
   \<and> hitCount hotEntry = 5
   \<and> map_of (cache (CommitCache_set warmCache ''k'' otherResponse 77)) ''k''
       = Some \<lparr>response = otherResponse, timestamp = 77, hitCount = 1\<rparr>
   \<and> list_all (\<lambda>kv. 1 \<le> hitCount (snd kv)) (cache (CommitCache_set warmCache ''k'' otherResponse 77))"
proof -
  have present: "map_of (cache warmCache) ''k'' = Some hotEntry"
    by (simp add: warmCache_def)
  have inv: "list_all (\<lambda>kv. 1 \<le> hitCount (snd kv)) (cache warmCache)"
    by (simp add: warmCache_def hotEntry_def)
  show ?thesis
    using present inv set_resets_present_entry [OF present, of otherResponse 77]
    by (simp add: hotEntry_def)
qed

text \<open>
  C6 (the code departs from the claim). A cache built with \<open>maxSize = 1\<close> holds one
  entry, under the empty string, with the lowest \<open>hitCount\<close> there is. It is at
  capacity, and \<open>set('a', r)\<close> evicts nothing: \<open>if (leastUsedKey)\<close> takes the empty
  string for "no key found". The cache then holds two entries.
\<close>

theorem set_at_capacity_keeps_empty_key:
  "int (length (cache fullCache)) = maxSize fullCache
   \<and> cache (CommitCache_set fullCache ''a'' otherResponse 20)
       = [('''', freshEntry), (''a'', \<lparr>response = otherResponse, timestamp = 20, hitCount = 1\<rparr>)]
   \<and> int (length (cache (CommitCache_set fullCache ''a'' otherResponse 20))) > maxSize fullCache"
  by (simp add: fullCache_def CommitCache_set_def evictLeastUsed_def Let_def Map_delete_def)

text \<open>
  Where the least-used key is not the empty string, the eviction is the one C6
  describes: the first entry, in iteration order, among those of lowest \<open>hitCount\<close>
  is the one removed, and no other.
\<close>

lemma leastUsedLoop_append:
  "leastUsedLoop (xs @ ys) st = leastUsedLoop ys (leastUsedLoop xs st)"
proof (induction xs arbitrary: st)
  case Nil
  then show ?case by simp
next
  case (Cons x xs)
  obtain key entry where x: "x = (key, entry)" by (cases x)
  obtain lk mh where st: "st = (lk, mh)" by (cases st)
  show ?case
    by (simp add: x st Cons.IH)
qed

lemma leastUsedLoop_keeps_candidate:
  assumes "list_all (\<lambda>kv. h \<le> hitCount (snd kv)) post"
  shows "leastUsedLoop post (Some k, Some h) = (Some k, Some h)"
  using assms by (induction post) auto

lemma leastUsedLoop_stays_above:
  assumes "list_all (\<lambda>kv. h < hitCount (snd kv)) pre"
    and "case mh of None \<Rightarrow> True | Some h0 \<Rightarrow> h < h0"
  shows "case snd (leastUsedLoop pre (lk, mh)) of None \<Rightarrow> True | Some h0 \<Rightarrow> h < h0"
  using assms
proof (induction pre arbitrary: lk mh)
  case Nil
  then show ?case by simp
next
  case (Cons x pre)
  obtain key entry where x: "x = (key, entry)" by (cases x)
  from Cons.prems have rest: "list_all (\<lambda>kv. h < hitCount (snd kv)) pre"
    and here: "h < hitCount entry"
    by (simp_all add: x)
  show ?case
  proof (cases "case mh of None \<Rightarrow> True | Some m \<Rightarrow> hitCount entry < m")
    case True
    then show ?thesis
      using Cons.IH [OF rest, of "Some (hitCount entry)" "Some key"] here by (simp add: x)
  next
    case False
    then show ?thesis
      using Cons.IH [OF rest Cons.prems(2), of lk] by (simp add: x)
  qed
qed

lemma leastUsedLoop_first_minimum:
  assumes "list_all (\<lambda>kv. hitCount e < hitCount (snd kv)) pre"
    and "list_all (\<lambda>kv. hitCount e \<le> hitCount (snd kv)) post"
  shows "leastUsedLoop (pre @ (k, e) # post) (None, None) = (Some k, Some (hitCount e))"
proof -
  obtain lk mh where pre: "leastUsedLoop pre (None, None) = (lk, mh)"
    by (cases "leastUsedLoop pre (None, None)")
  have above: "case mh of None \<Rightarrow> True | Some h0 \<Rightarrow> hitCount e < h0"
    using leastUsedLoop_stays_above [OF assms(1), of None None] pre by simp
  have "leastUsedLoop (pre @ (k, e) # post) (None, None)
          = leastUsedLoop post (leastUsedLoop [(k, e)] (lk, mh))"
    using leastUsedLoop_append [of pre "(k, e) # post" "(None, None)"]
      leastUsedLoop_append [of "[(k, e)]" post "(lk, mh)"] pre by simp
  also have "leastUsedLoop [(k, e)] (lk, mh) = (Some k, Some (hitCount e))"
    using above by (simp split: option.splits)
  finally show ?thesis
    by (simp add: leastUsedLoop_keeps_candidate [OF assms(2)])
qed

lemma Map_delete_distinct:
  assumes "distinct (map fst (pre @ (k, e) # post))"
  shows "Map_delete k (pre @ (k, e) # post) = pre @ post"
proof -
  have "k \<notin> fst ` set pre" and "k \<notin> fst ` set post"
    using assms by auto
  then have "filter (\<lambda>kv. fst kv \<noteq> k) pre = pre" and "filter (\<lambda>kv. fst kv \<noteq> k) post = post"
    by (auto simp: filter_id_conv)
  then show ?thesis
    by (simp add: Map_delete_def)
qed

lemma set_at_capacity_evicts_first_minimum:
  assumes "cache c = pre @ (k, e) # post"
    and "distinct (map fst (cache c))"
    and "list_all (\<lambda>kv. hitCount e < hitCount (snd kv)) pre"
    and "list_all (\<lambda>kv. hitCount e \<le> hitCount (snd kv)) post"
    and "int (length (cache c)) \<ge> maxSize c"
    and "k \<noteq> []"
  shows "cache (CommitCache_set c key r now) =
           Map_set key \<lparr>response = r, timestamp = now, hitCount = 1\<rparr> (pre @ post)"
proof -
  have "cache (evictLeastUsed c) = pre @ post"
    using assms(1,2,6) leastUsedLoop_first_minimum [OF assms(3,4), of k]
    by (simp add: evictLeastUsed_def Map_delete_distinct)
  then show ?thesis
    using assms(5) by (simp add: CommitCache_set_def Let_def)
qed

section \<open>Properties of the prompt templates\<close>

lemma generateCacheKey_files_after: "snd (generateCacheKey fs diff) = sort fs"
  by (simp add: generateCacheKey_def Let_def)

text \<open>
  C9 (the code departs from the claim). \<open>generateCacheKey\<close> called on the array
  \<open>['b.ts', 'a.ts']\<close> returns the key \<open>'a.ts|b.ts:x'\<close> and leaves the caller's
  array as \<open>['a.ts', 'b.ts']\<close>: \<open>files.sort()\<close> has sorted it in place.
\<close>

theorem generateCacheKey_sorts_argument_in_place:
  "generateCacheKey [''b.ts'', ''a.ts''] ''x'' = (''a.ts|b.ts:x'', [''a.ts'', ''b.ts''])
   \<and> snd (generateCacheKey [''b.ts'', ''a.ts''] ''x'') \<noteq> [''b.ts'', ''a.ts'']"
  by (simp add: generateCacheKey_def Let_def isWhiteSpace_def)

section \<open>Properties of the diff parser\<close>

lemma determineChangeType_cases:
  "(determineChangeType adds dels = ''added'' \<longleftrightarrow> dels = [] \<and> adds \<noteq> [])
   \<and> (determineChangeType adds dels = ''deleted'' \<longleftrightarrow> adds = [] \<and> dels \<noteq> [])
   \<and> (determineChangeType adds dels = ''modified''
        \<longleftrightarrow> \<not> (dels = [] \<and> adds \<noteq> []) \<and> \<not> (adds = [] \<and> dels \<noteq> []))"
  by (auto simp: determineChangeType_def)

lemma determineChangeType_lengths:
  "length adds' = length adds \<Longrightarrow> length dels' = length dels
   \<Longrightarrow> determineChangeType adds' dels' = determineChangeType adds dels"
  by (simp add: determineChangeType_def)

lemma parseDiffLoop_invariant:
  assumes "list_all (\<lambda>d. changeType d = determineChangeType (additions d) (deletions d)) acc"
  shows "list_all (\<lambda>d. changeType d = determineChangeType (additions d) (deletions d))
           (parseDiffLoop mm opts chunks acc)"
  using assms
proof (induction chunks arbitrary: acc)
  case Nil
  then show ?case by simp
next
  case (Cons chunk rest)
  show ?case
  proof (cases "jsTrim chunk = []
      \<or> chunkFilePath (jsSplit chunk newline) = []
      \<or> shouldExcludeFile mm (chunkFilePath (jsSplit chunk newline))
           (readProperty (excludePatterns opts))")
    case True
    then show ?thesis
      using Cons.IH [OF Cons.prems] by (auto simp: Let_def)
  next
    case False
    obtain adds dels where pc:
      "parseChunk (jsSplit chunk newline) (readProperty (maxLinesPerFile opts)) = (adds, dels)"
      by (cases "parseChunk (jsSplit chunk newline) (readProperty (maxLinesPerFile opts))")
    have "list_all (\<lambda>d. changeType d = determineChangeType (additions d) (deletions d))
            (acc @ [\<lparr>filePath = chunkFilePath (jsSplit chunk newline), additions = adds,
                      deletions = dels, changeType = determineChangeType adds dels\<rparr>])"
      using Cons.prems by simp
    from Cons.IH [OF this] show ?thesis
      using False pc by (simp add: Let_def)
  qed
qed

lemma changeType_is_determined:
  assumes "d \<in> set (parseDiff mm diff options)"
  shows "changeType d = determineChangeType (additions d) (deletions d)"
proof -
  have "list_all (\<lambda>d. changeType d = determineChangeType (additions d) (deletions d))
          (parseDiff mm diff options)"
    unfolding parseDiff_def Let_def by (rule parseDiffLoop_invariant) simp
  with assms show ?thesis by (simp add: list_all_iff)
qed

text \<open>
  C5. Every record \<open>d\<close> that \<open>parseDiff\<close> returns, for every matcher, diff text and
  options, has \<open>changeType\<close> \<open>'added'\<close> exactly when it has no deletion and some
  addition, \<open>'deleted'\<close> exactly when it has no addition and some deletion, and
  \<open>'modified'\<close> in every other case (also when it has neither); \<open>changeType\<close> is the
  value of \<open>determineChangeType\<close>, which depends on the two lengths only.
\<close>

theorem parseDiff_changeType:
  assumes "d \<in> set (parseDiff mm diff options)"
  shows "(changeType d = ''added'' \<longleftrightarrow> deletions d = [] \<and> additions d \<noteq> [])
       \<and> (changeType d = ''deleted'' \<longleftrightarrow> additions d = [] \<and> deletions d \<noteq> [])
       \<and> (changeType d = ''modified''
            \<longleftrightarrow> \<not> (deletions d = [] \<and> additions d \<noteq> [])
                \<and> \<not> (additions d = [] \<and> deletions d \<noteq> []))
       \<and> (length adds = length (additions d) \<and> length dels = length (deletions d)
            \<longrightarrow> changeType d = determineChangeType adds dels)"
proof -
  have eq: "changeType d = determineChangeType (additions d) (deletions d)"
    using assms by (rule changeType_is_determined)
  have "length adds = length (additions d) \<and> length dels = length (deletions d)
          \<longrightarrow> changeType d = determineChangeType adds dels"
    using eq determineChangeType_lengths [of adds "additions d" dels "deletions d"] by simp
  then show ?thesis
    using eq determineChangeType_cases [of "additions d" "deletions d"] by simp
qed

lemma parseDiff_diffTwoFiles:
  "parseDiff minimatch diffTwoFiles no_options =
     [\<lparr>filePath = ''api.ts'', additions = [''new''], deletions = [''old''],
       changeType = ''modified''\<rparr>,
      \<lparr>filePath = ''gone.ts'', additions = [], deletions = [''bye''],
       changeType = ''deleted''\<rparr>]"
  by code_simp

theorem parseDiff_changeType_witness:
  "\<lparr>filePath = ''gone.ts'', additions = [], deletions = [''bye''], changeType = ''deleted''\<rparr>
     \<in> set (parseDiff minimatch diffTwoFiles no_options)
   \<and> \<lparr>filePath = ''api.ts'', additions = [''new''], deletions = [''old''],
       changeType = ''modified''\<rparr>
     \<in> set (parseDiff minimatch diffTwoFiles no_options)
   \<and> determineChangeType [] [''q''] = ''deleted''
   \<and> determineChangeType [''p''] [''q''] = ''modified''"
proof -
  let ?gone = "\<lparr>filePath = ''gone.ts'', additions = [], deletions = [''bye''],
                 changeType = ''deleted''\<rparr>"
  let ?api = "\<lparr>filePath = ''api.ts'', additions = [''new''], deletions = [''old''],
                changeType = ''modified''\<rparr>"
  have gone: "?gone \<in> set (parseDiff minimatch diffTwoFiles no_options)"
    unfolding parseDiff_diffTwoFiles by simp
  have api: "?api \<in> set (parseDiff minimatch diffTwoFiles no_options)"
    unfolding parseDiff_diffTwoFiles by simp
  have g: "determineChangeType [] [''q''] = ''deleted''"
    using parseDiff_changeType [OF gone, of "[]" "[''q'']"] by simp
  have a: "determineChangeType [''p''] [''q''] = ''modified''"
    using parseDiff_changeType [OF api, of "[''p'']" "[''q'']"] by simp
  from gone api g a show ?thesis by blast
qed

subsection \<open>Size of the input of the parser\<close>

lemma startsWith_Cons: "startsWith (p # ps) (c # cs) = (p = c \<and> startsWith ps cs)"
  by (auto simp: startsWith_def)

lemma startsWith_Nil_right: "startsWith (p # ps) [] = False"
  by (simp add: startsWith_def)

lemma startsWith_Nil_left: "startsWith [] s = True"
  by (simp add: startsWith_def)

lemma startsWith_replicate: "c \<noteq> y \<Longrightarrow> startsWith (c # ps) (replicate n y) = False"
  by (cases n) (auto simp: startsWith_Cons startsWith_Nil_right)

lemma splitAux_absent:
  assumes "p \<notin> set s"
  shows "splitAux (p # ps) acc s = [rev acc @ s]"
  using assms by (induction s arbitrary: acc) (auto simp: startsWith_Cons)

lemma jsTrim_nonblank:
  assumes "c \<in> set s" and "\<not> isWhiteSpace c"
  shows "jsTrim s \<noteq> []"
proof -
  have "c \<in> set (dropWhile isWhiteSpace s)"
    using assms by (induction s) auto
  then have "c \<in> set (rev (dropWhile isWhiteSpace s))"
    by simp
  then have "dropWhile isWhiteSpace (rev (dropWhile isWhiteSpace s)) \<noteq> []"
    using assms(2) by (metis dropWhile_eq_Nil_conv)
  then show ?thesis
    by (simp add: jsTrim_def)
qed

lemma split_paddedDiff:
  "jsSplit (paddedDiff n) ''diff --git'' =
     [[], '' a/f b/f'' @ newline @ ''+x'' @ newline @ replicate n (CHR ''y'')]"
  by (simp add: jsSplit_def paddedDiff_def newline_def startsWith_Cons startsWith_Nil_left
      splitAux_absent)

lemma lines_padded:
  "jsSplit ('' a/f b/f'' @ newline @ ''+x'' @ newline @ replicate n (CHR ''y'')) newline
     = ['' a/f b/f'', ''+x'', replicate n (CHR ''y'')]"
  by (simp add: jsSplit_def newline_def startsWith_Cons startsWith_Nil_left splitAux_absent)

lemma path_f: "chunkFilePath ['' a/f b/f'', l1, l2] = ''f''"
  by (simp add: chunkFilePath_def startsWith_Cons startsWith_Nil_left startsWith_Nil_right
      isLineTerminator_def)

lemma not_excluded_f:
  "shouldExcludeFile minimatch ''f''
     (readProperty (excludePatterns (spread DEFAULT_OPTIONS no_options))) = False"
  by code_simp

lemma sanitize_x: "sanitizeLine ''x'' = ''x''"
  by code_simp

lemma chunk_padded:
  "parseChunk ['' a/f b/f'', ''+x'', replicate n (CHR ''y'')] (Some 50) = ([''x''], [])"
  by (simp add: parseChunk_def startsWith_Cons startsWith_Nil_left startsWith_Nil_right
      startsWith_replicate belowCap_def sanitize_x)

lemma parseDiff_paddedDiff:
  "parseDiff minimatch (paddedDiff n) no_options =
     [\<lparr>filePath = ''f'', additions = [''x''], deletions = [], changeType = ''added''\<rparr>]"
proof -
  define chunk where
    "chunk = '' a/f b/f'' @ newline @ ''+x'' @ newline @ replicate n (CHR ''y'')"
  have chunks: "jsSplit (paddedDiff n) ''diff --git'' = [[], chunk]"
    unfolding chunk_def by (rule split_paddedDiff)
  have lines: "jsSplit chunk newline = ['' a/f b/f'', ''+x'', replicate n (CHR ''y'')]"
    unfolding chunk_def by (rule lines_padded)
  have nonblank: "jsTrim chunk \<noteq> []"
    unfolding chunk_def
    by (rule jsTrim_nonblank [of "CHR ''a''"]) (simp_all add: isWhiteSpace_def)
  have blank: "jsTrim [] = []"
    by (simp add: jsTrim_def)
  have cap: "readProperty (maxLinesPerFile (spread DEFAULT_OPTIONS no_options)) = Some 50"
    by (simp add: spread_def DEFAULT_OPTIONS_def no_options_def readProperty_def)
  show ?thesis
    unfolding parseDiff_def Let_def chunks
    by (simp add: blank nonblank lines path_f not_excluded_f chunk_padded cap
        determineChangeType_def Let_def)
qed

lemma length_paddedDiff: "length (paddedDiff n) = n + 22"
  by (simp add: paddedDiff_def newline_def)

text \<open>
  C8, as stated, fails for oversized input: a diff text of 1000022 characters, above
  the bound of 1MB that the claim names, is not refused. \<open>parseDiff\<close> processes it and
  returns the record of its file, and \<open>getStagedDiff\<close> returns that list.
\<close>

theorem oversized_diff_is_parsed:
  "length (paddedDiff 1000000) > 1000000
   \<and> parseDiff minimatch (paddedDiff 1000000) no_options =
       [\<lparr>filePath = ''f'', additions = [''x''], deletions = [], changeType = ''added''\<rparr>]
   \<and> getStagedDiff minimatch (Inr (paddedDiff 1000000)) =
       Inr [\<lparr>filePath = ''f'', additions = [''x''], deletions = [], changeType = ''added''\<rparr>]"
  by (simp add: length_paddedDiff parseDiff_paddedDiff getStagedDiff_def)

lemma splitAux_skip:
  assumes "p \<notin> set t"
  shows "splitAux (p # ps) acc (t @ r) = splitAux (p # ps) (rev t @ acc) r"
  using assms by (induction t arbitrary: acc) (auto simp: startsWith_Cons)

lemma splitAux_at_marker:
  "splitAux ''diff --git'' acc (''diff --git'' @ r) = rev acc # splitAux ''diff --git'' [] r"
  by (simp add: startsWith_def)

lemma repeatedDiff_Suc:
  "repeatedDiff (Suc n) = ''diff --git'' @ blockBody @ repeatedDiff n"
  by (simp add: repeatedDiff_def oneFileBlock_def blockBody_def)

lemma splitAux_repeatedDiff:
  "splitAux ''diff --git'' acc (repeatedDiff n) = rev acc # replicate n blockBody"
proof (induction n arbitrary: acc)
  case 0
  then show ?case by (simp add: repeatedDiff_def)
next
  case (Suc n)
  have nod: "CHR ''d'' \<notin> set blockBody"
    by (simp add: blockBody_def newline_def)
  have "splitAux ''diff --git'' acc (repeatedDiff (Suc n))
          = rev acc # splitAux ''diff --git'' [] (blockBody @ repeatedDiff n)"
    unfolding repeatedDiff_Suc by (rule splitAux_at_marker)
  also have "splitAux ''diff --git'' [] (blockBody @ repeatedDiff n)
          = splitAux ''diff --git'' (rev blockBody @ []) (repeatedDiff n)"
    using splitAux_skip [OF nod, of "''iff --git''" "[]" "repeatedDiff n"] by simp
  also have "\<dots> = rev (rev blockBody @ []) # replicate n blockBody"
    by (rule Suc.IH)
  finally show ?case by simp
qed

lemma blockBody_facts:
  "jsTrim blockBody \<noteq> []"
  "chunkFilePath (jsSplit blockBody newline) = ''f''"
  "parseChunk (jsSplit blockBody newline) (Some 50) = ([''x''], [])"
  by code_simp+

lemma parseDiffLoop_blocks:
  "parseDiffLoop minimatch (spread DEFAULT_OPTIONS no_options) (replicate n blockBody) acc =
     acc @ replicate n
       \<lparr>filePath = ''f'', additions = [''x''], deletions = [], changeType = ''added''\<rparr>"
proof (induction n arbitrary: acc)
  case 0
  then show ?case by simp
next
  case (Suc n)
  have cap: "readProperty (maxLinesPerFile (spread DEFAULT_OPTIONS no_options)) = Some 50"
    by (simp add: spread_def DEFAULT_OPTIONS_def no_options_def readProperty_def)
  show ?case
    by (simp add: blockBody_facts not_excluded_f cap determineChangeType_def Let_def Suc.IH)
qed

lemma parseDiff_repeatedDiff:
  "parseDiff minimatch (repeatedDiff n) no_options =
     replicate n
       \<lparr>filePath = ''f'', additions = [''x''], deletions = [], changeType = ''added''\<rparr>"
proof -
  have blank: "jsTrim [] = []"
    by (simp add: jsTrim_def)
  have "jsSplit (repeatedDiff n) ''diff --git'' = [] # replicate n blockBody"
    using splitAux_repeatedDiff [of "[]" n] by (simp add: jsSplit_def)
  then show ?thesis
    by (simp add: parseDiff_def Let_def blank parseDiffLoop_blocks)
qed

lemma length_repeatedDiff: "length (repeatedDiff n) = 22 * n"
  by (induction n) (simp_all add: repeatedDiff_def oneFileBlock_def newline_def)

text \<open>
  C8, amended. \<open>parseDiff\<close> has no validation step and no bound on the size of its
  input; its parameter has the type \<open>string\<close>, so an input that is not a string is
  outside the function's domain. A text of any length is processed to its end: for
  every \<open>n\<close>, the text of \<open>22 * n\<close> characters made of \<open>n\<close> file blocks is parsed
  to \<open>n\<close> records, one for each block; and the text of \<open>n + 22\<close> characters made
  of one block and \<open>n\<close> more characters is parsed to the record of that block.
\<close>

theorem parseDiff_has_no_size_bound:
  "length (repeatedDiff n) = 22 * n
   \<and> parseDiff minimatch (repeatedDiff n) no_options =
       replicate n
         \<lparr>filePath = ''f'', additions = [''x''], deletions = [], changeType = ''added''\<rparr>
   \<and> length (parseDiff minimatch (repeatedDiff n) no_options) = n
   \<and> length (paddedDiff n) = n + 22
   \<and> parseDiff minimatch (paddedDiff n) no_options =
       [\<lparr>filePath = ''f'', additions = [''x''], deletions = [], changeType = ''added''\<rparr>]"
  by (simp add: length_repeatedDiff parseDiff_repeatedDiff length_paddedDiff parseDiff_paddedDiff)

subsection \<open>No changes\<close>














subsection \<open>Failure of the diff retrieval\<close>





subsection \<open>Timeout and retries of a model call\<close>

lemma withRetries_two_attempts:
  "withRetries fn 2 1 =
     (case snd (fn 1) of
        Inr v \<Rightarrow> fn 1
      | Inl e \<Rightarrow> (fst (fn 1) + 200 + fst (fn 2), snd (fn 2)))"
proof -
  have two: "(2::nat) = Suc (Suc 0)"
    by simp
  have second: "withRetries fn (Suc (Suc 0)) (Suc (Suc 0)) = fn (Suc (Suc 0))"
    by (subst withRetries.simps) (simp split: sum.splits)
  have "withRetries fn (Suc (Suc 0)) (Suc 0) =
     (case snd (fn (Suc 0)) of
        Inr v \<Rightarrow> fn (Suc 0)
      | Inl e \<Rightarrow> (fst (fn (Suc 0)) + 200 + fst (fn (Suc (Suc 0))), snd (fn (Suc (Suc 0)))))"
    by (subst withRetries.simps) (simp add: second split: sum.splits)
  then show ?thesis
    by (simp add: two split: sum.splits)
qed

lemma fst_getLLMResponse: "fst (getLLMResponse a) = latency a"
  by (simp add: getLLMResponse_def)

lemma callLLM_unfolded:
  "callLLM provider =
     withTimeout
       (case snd (getLLMResponse (provider 1)) of
          Inr v \<Rightarrow> getLLMResponse (provider 1)
        | Inl e \<Rightarrow> (latency (provider 1) + 200 + latency (provider 2),
                     snd (getLLMResponse (provider 2))))
       2000"
  unfolding callLLM_def MAX_RETRIES_def TIMEOUT_MS_def withRetries_two_attempts
    fst_getLLMResponse
  by (rule refl)

lemma getLLMResponse_malformed:
  "getLLMResponse \<lparr>latency = t, result = malformedReply\<rparr> =
     (t, Inl (JsError InvalidResponseError ''Invalid LLM response: Invalid JSON response from LLM''))"
  by (simp add: getLLMResponse_def malformedReply_def new_InvalidResponseError_def)

lemma getLLMResponse_valid:
  "getLLMResponse \<lparr>latency = t, result = validReply\<rparr> = (t, Inr someResponse)"
  by (simp add: getLLMResponse_def validReply_def validateLLMResponse_def someResponse_def)

lemma timeout_message: "''Timeout after '' @ showNat 2000 @ ''ms'' = ''Timeout after 2000ms''"
  by simp

lemma callLLM_slowRetryProvider:
  "callLLM slowRetryProvider = (2000, Inl (JsError PlainError ''Timeout after 2000ms''))"
  by (simp add: callLLM_unfolded slowRetryProvider_def getLLMResponse_malformed
      getLLMResponse_valid withTimeout_def new_Error_def timeout_message)

lemma callLLM_quickRetryProvider:
  "callLLM quickRetryProvider = (400, Inr someResponse)"
  by (simp add: callLLM_unfolded quickRetryProvider_def getLLMResponse_malformed
      getLLMResponse_valid withTimeout_def)

text \<open>
  C2, as stated, fails. The provider answers the first call after 1500 ms with a
  text that is not JSON and the second call after 1500 ms with a valid response: each
  attempt alone is within the 2000 ms, and a timer per attempt would let the second
  one succeed. The model call fails at 2000 ms, and the failure is the plain
  \<open>Error('Timeout after 2000ms')\<close> of \<open>withTimeout\<close>, not an \<open>LLMTimeoutError\<close>.
\<close>

theorem timeout_spans_retries_counterexample:
  "latency (slowRetryProvider 1) < TIMEOUT_MS
   \<and> latency (slowRetryProvider 2) < TIMEOUT_MS
   \<and> snd (getLLMResponse (slowRetryProvider 2)) = Inr someResponse
   \<and> callLLM slowRetryProvider = (2000, Inl (JsError PlainError ''Timeout after 2000ms''))
   \<and> error_class (JsError PlainError ''Timeout after 2000ms'') \<noteq> LLMTimeoutError"
  by (simp add: callLLM_slowRetryProvider)
    (simp add: slowRetryProvider_def TIMEOUT_MS_def getLLMResponse_valid)

text \<open>
  C2, amended. Both call sites wrap a model call as \<open>callLLM\<close> does: one timer of
  2000 ms races the whole retry sequence of the call, which is the first attempt and,
  when that fails, a pause of 200 ms and a second attempt. When the sequence settles
  before the 2000 ms, the call settles then, with what the sequence settles with (the
  first attempt's value, else the second attempt's value or failure); when the
  sequence needs more than 2000 ms, the call fails at 2000 ms.
\<close>

theorem timeout_spans_retries:
  fixes provider :: "nat \<Rightarrow> attempt"
  defines "a1 \<equiv> getLLMResponse (provider 1)"
      and "a2 \<equiv> getLLMResponse (provider 2)"
  defines "elapsed \<equiv> (if isl (snd a1) then fst a1 + 200 + fst a2 else fst a1)"
      and "outcome \<equiv> (if isl (snd a1) then snd a2 else snd a1)"
  shows "(elapsed < 2000 \<longrightarrow> callLLM provider = (elapsed, outcome))
       \<and> (elapsed > 2000 \<longrightarrow> fst (callLLM provider) = 2000 \<and> isl (snd (callLLM provider)))"
  unfolding elapsed_def outcome_def a1_def a2_def
  by (cases "snd (getLLMResponse (provider 1))")
    (auto simp: callLLM_unfolded withTimeout_def fst_getLLMResponse prod_eq_iff)

theorem timeout_spans_retries_witness:
  "latency (quickRetryProvider 1) + 200 + latency (quickRetryProvider 2) < 2000
   \<and> callLLM quickRetryProvider = (400, Inr someResponse)
   \<and> latency (slowRetryProvider 1) + 200 + latency (slowRetryProvider 2) > 2000
   \<and> fst (callLLM slowRetryProvider) = 2000
   \<and> isl (snd (callLLM slowRetryProvider))"
proof -
  have quick: "getLLMResponse (quickRetryProvider 1)
                 = (100, Inl (JsError InvalidResponseError
                      ''Invalid LLM response: Invalid JSON response from LLM''))"
    "getLLMResponse (quickRetryProvider 2) = (100, Inr someResponse)"
    by (simp_all add: quickRetryProvider_def getLLMResponse_malformed getLLMResponse_valid)
  have slow: "getLLMResponse (slowRetryProvider 1)
                = (1500, Inl (JsError InvalidResponseError
                     ''Invalid LLM response: Invalid JSON response from LLM''))"
    "getLLMResponse (slowRetryProvider 2) = (1500, Inr someResponse)"
    by (simp_all add: slowRetryProvider_def getLLMResponse_malformed getLLMResponse_valid)
  have lat: "latency (quickRetryProvider k) = 100" "latency (slowRetryProvider k) = 1500" for k
    by (simp_all add: quickRetryProvider_def slowRetryProvider_def)
  have q: "callLLM quickRetryProvider = (400, Inr someResponse)"
    using timeout_spans_retries [of quickRetryProvider, unfolded quick] by simp
  have s: "fst (callLLM slowRetryProvider) = 2000 \<and> isl (snd (callLLM slowRetryProvider))"
    using timeout_spans_retries [of slowRetryProvider, unfolded slow] by simp
  show ?thesis
    using q s by (simp add: lat)
qed

subsection \<open>Failure of a model call\<close>

lemma analyzeCommit_fallback:
  assumes "tryBlock mm w c rootDir = (Inl e, c')"
    and "error_class e = LLMTimeoutError \<or> error_class e = InvalidResponseError"
    and "git_diff w rootDir 1 = Inr diff2"
  shows "analyzeCommit mm infer w c rootDir =
           (Inr \<lparr>message = FALLBACK_COMMIT_TEMPLATE (map filePath (parseDiff mm diff2 no_options))
                             (infer (map filePath (parseDiff mm diff2 no_options))),
                 analysis = createEmptyAnalysis (Some (map filePath (parseDiff mm diff2 no_options)))\<rparr>,
            c')"
  using assms
  by (auto simp: analyzeCommit_def catchBlock_def getStagedDiff_def Let_def)

lemma createEmptyAnalysis_tail:
  "changeTypes (createEmptyAnalysis fs) = [] \<and> breakingChanges (createEmptyAnalysis fs) = False"
  by (simp add: createEmptyAnalysis_def)

lemma malformed_response_falls_back:
  "analyzeCommit minimatch inferChore malformedModelWorld commitCache ''/repo'' =
     (Inr \<lparr>message = ''chore: update f.ts'',
           analysis = \<lparr>files = [''f.ts''], summary = [], impactedAreas = [], changeTypes = [],
                        breakingChanges = False\<rparr>\<rparr>, commitCache)"
  by code_simp

text \<open>
  C1 (the code departs from the claim). One file is staged and every call of the
  provider takes 3 seconds. \<open>withTimeout\<close> rejects the first model call after 2000
  ms with a plain \<open>Error('Timeout after 2000ms')\<close>, which is neither an
  \<open>LLMTimeoutError\<close> nor an \<open>InvalidResponseError\<close>: the \<open>catch\<close> block of
  \<open>analyzeCommit\<close> rethrows it, and no fallback message is returned.
\<close>

theorem timeout_is_rethrown:
  "getStagedDiff minimatch (git_diff slowModelWorld ''/repo'' 0) =
     Inr [\<lparr>filePath = ''f.ts'', additions = [''x''], deletions = [], changeType = ''added''\<rparr>]
   \<and> analyzeCommit minimatch inferChore slowModelWorld commitCache ''/repo'' =
       (Inl (JsError PlainError ''Timeout after 2000ms''), commitCache)"
  by code_simp

end
